theory Spec2Isabelle
  imports Main "HOL-Library.Word"
begin

section \<open>Data model\<close>

text \<open>
  The program is a Go HTTP server with three handlers that forward to an S3 client:
  \<^verbatim>\<open>listFilesInBucket\<close>, \<^verbatim>\<open>uploadFileToBucket\<close> and \<^verbatim>\<open>downloadFileFromBucket\<close>.
  A Go \<^verbatim>\<open>string\<close> and a \<^verbatim>\<open>[]byte\<close> are both byte sequences, here \<open>string\<close>
  (an Isabelle \<open>char\<close> is one byte). \<^verbatim>\<open>int64\<close> and \<^verbatim>\<open>time.Duration\<close>
  are 64-bit words read as two's complement.
\<close>

type_synonym bytes = string
type_synonym int64 = "64 word"

text \<open>
  A Go \<^verbatim>\<open>error\<close> value. The download handler tests whether a probe error is an
  \<^verbatim>\<open>awserr.Error\<close>; every handler prints an error through its \<^verbatim>\<open>Error()\<close> text.
\<close>

datatype error = Awserr string | Err string

fun Error :: "error \<Rightarrow> string" where
  "Error (Awserr m) = m"
| "Error (Err m) = m"

text \<open>\<^verbatim>\<open>type s3Data struct { Key string; Size int64 }\<close>\<close>

record s3Data =
  Key :: string
  Size :: int64

text \<open>
  A Go slice is either \<^verbatim>\<open>nil\<close> or backed by an array: \<^verbatim>\<open>[]s3Data{}\<close> is empty
  and not nil, and the JSON encoder tells the two apart.
\<close>

datatype 'a slice = NilSlice | Slice "'a list"

fun append_slice :: "'a slice \<Rightarrow> 'a \<Rightarrow> 'a slice" where
  "append_slice NilSlice x = Slice [x]"
| "append_slice (Slice xs) x = Slice (xs @ [x])"

text \<open>
  The SDK's \<^verbatim>\<open>s3.Object\<close> and \<^verbatim>\<open>s3.ListObjectsOutput\<close>, with the fields the handler
  reads. Both fields of an object are pointers and may be nil.
\<close>

record Object =
  Object_Key :: "string option"
  Object_Size :: "int64 option"

record ListObjectsOutput =
  Contents :: "Object list"

record HeadObjectOutput =
  ContentLength :: "int64 option"

text \<open>\<^verbatim>\<open>aws.StringValue\<close>: the empty string for a nil pointer.\<close>

fun StringValue :: "string option \<Rightarrow> string" where
  "StringValue None = []"
| "StringValue (Some s) = s"

text \<open>
  \<^verbatim>\<open>context.Context\<close>: the background context, or a context derived from a parent
  with a timeout (a duration in nanoseconds). \<open>Deadline\<close> is the time bound it carries,
  counted from the moment of the request: a child never outlives its parent.
\<close>

datatype Context = Background | WithTimeout Context int64

fun Deadline :: "Context \<Rightarrow> int64 option" where
  "Deadline Background = None"
| "Deadline (WithTimeout parent d) =
     (case Deadline parent of
        None \<Rightarrow> Some d
      | Some p \<Rightarrow> Some (if sint p < sint d then p else d))"

subsection \<open>The HTTP request\<close>

text \<open>
  A multipart file part: the \<^verbatim>\<open>Filename\<close> of its \<^verbatim>\<open>multipart.FileHeader\<close>, the bytes
  a reader gets from it, and the error, if any, that reading ends with.
\<close>

record multipart_File =
  Filename :: string
  content :: bytes
  read_error :: "error option"

text \<open>
  The request: its form values (\<^verbatim>\<open>request.Form\<close>, a list of values per key) and the
  result of \<^verbatim>\<open>request.FormFile\<close> for each field name.
\<close>

record request =
  Form :: "string \<Rightarrow> string list"
  FormFile :: "string \<Rightarrow> error + multipart_File"

text \<open>\<^verbatim>\<open>request.FormValue\<close>: the first value of the key, or the empty string.\<close>

definition FormValue :: "request \<Rightarrow> string \<Rightarrow> string" where
  "FormValue rq k = (case Form rq k of [] \<Rightarrow> [] | v # _ \<Rightarrow> v)"

text \<open>
  What the client sends for a file: the \<^verbatim>\<open>filename\<close> parameter of the part's
  \<^verbatim>\<open>Content-Disposition\<close> header, and the bytes of the part.
\<close>

record Part =
  part_filename :: string
  part_data :: bytes

text \<open>
  \<^verbatim>\<open>filepath.Base\<close> of the standard library, on Unix: trailing slashes are dropped,
  then everything up to the last slash; a path of slashes only gives one slash.
\<close>

definition filepath_Base :: "string \<Rightarrow> string" where
  "filepath_Base path =
     (if path = [] then ''.''
      else
        (let stripped = rev (dropWhile (\<lambda>c. c = CHR ''/'') (rev path));
             last_element = rev (takeWhile (\<lambda>c. c \<noteq> CHR ''/'') (rev stripped))
         in if last_element = [] then ''/'' else last_element))"

text \<open>
  \<^verbatim>\<open>(*multipart.Part).FileName\<close>: the library does not hand out the client's name, it
  passes a name that is not empty through \<^verbatim>\<open>filepath.Base\<close>.
\<close>

definition Part_FileName :: "Part \<Rightarrow> string" where
  "Part_FileName p = (if part_filename p = [] then [] else filepath_Base (part_filename p))"

text \<open>
  What \<^verbatim>\<open>request.FormFile\<close> returns for a field that the client sent as this part,
  once the library has parsed and stored the form: a part without a filename is a plain
  form value, so there is no file; otherwise the header carries \<^verbatim>\<open>FileName()\<close> and
  the stored file reads as the bytes of the part.
\<close>

definition multipart_FormFile :: "Part \<Rightarrow> error + multipart_File" where
  "multipart_FormFile p =
     (if Part_FileName p = [] then Inl (Err ''http: no such file'')
      else Inr \<lparr>Filename = Part_FileName p, content = part_data p, read_error = None\<rparr>)"

subsection \<open>The response writer\<close>

text \<open>
  \<^verbatim>\<open>http.ResponseWriter\<close>: the header map the handler edits, the status line and the
  header as sent (fixed by the first \<^verbatim>\<open>WriteHeader\<close>), and the body written so far.
  The model takes every write to succeed.
\<close>

record ResponseWriter =
  Header :: "string \<rightharpoonup> string"
  wroteHeader :: bool
  status :: nat
  sent_header :: "string \<rightharpoonup> string"
  body :: bytes

definition new_writer :: ResponseWriter where
  "new_writer = \<lparr>Header = Map.empty, wroteHeader = False, status = 0,
     sent_header = Map.empty, body = []\<rparr>"

definition WriteHeader :: "nat \<Rightarrow> ResponseWriter \<Rightarrow> ResponseWriter" where
  "WriteHeader code w =
     (if wroteHeader w then w
      else w\<lparr>wroteHeader := True, status := code, sent_header := Header w\<rparr>)"

definition Write :: "bytes \<Rightarrow> ResponseWriter \<Rightarrow> ResponseWriter" where
  "Write b w = (let w' = WriteHeader 200 w in w'\<lparr>body := body w' @ b\<rparr>)"

definition Header_Set :: "string \<Rightarrow> string \<Rightarrow> ResponseWriter \<Rightarrow> ResponseWriter" where
  "Header_Set k v w = w\<lparr>Header := (Header w)(k \<mapsto> v)\<rparr>"

subsection \<open>The world outside the handlers\<close>

text \<open>
  Everything a handler calls that is not code of this repository: the process
  environment, the Go standard library functions whose result depends on more than the
  handler's control flow, the S3 SDK and the local file system. Each is a function from
  the arguments of the call to its result, so a theorem about a handler holds for every
  behaviour of these.
  \<^item> \<open>ListObjectsPagesWithContext ctx bucket\<close>: the pages the SDK hands to the callback, in
    order, and the error it returns in the end;
  \<^item> \<open>Upload bucket key body\<close>: the error, or the \<^verbatim>\<open>Location\<close> of the upload output;
  \<^item> \<open>Download bucket key buf\<close>: the contents of the caller's buffer when the call
    returns, the byte count and the error;
  \<^item> \<open>WriteFile name data perm\<close>: the error of \<^verbatim>\<open>os.WriteFile\<close>;
  \<^item> \<open>maxAlloc\<close>: the largest byte slice the Go runtime allocates (\<^verbatim>\<open>make\<close> panics
    beyond it, as it does for a negative length);
  \<^item> \<open>quote\<close>: how \<^verbatim>\<open>encoding/json\<close> writes a string value.
\<close>

record world =
  LookupEnv :: "string \<rightharpoonup> string"
  ParseDuration :: "string \<Rightarrow> error + int64"
  NewSessionWithOptions :: "error option"
  ListObjectsPagesWithContext :: "Context \<Rightarrow> string \<Rightarrow> ListObjectsOutput list \<times> error option"
  Upload :: "string \<Rightarrow> string \<Rightarrow> bytes \<Rightarrow> error + string"
  HeadObject :: "string \<Rightarrow> string \<Rightarrow> error + HeadObjectOutput"
  Download :: "string \<Rightarrow> string \<Rightarrow> bytes \<Rightarrow> bytes \<times> int64 \<times> error option"
  WriteFile :: "string \<Rightarrow> bytes \<Rightarrow> nat \<Rightarrow> error option"
  maxAlloc :: nat
  FormatMediaType :: "string \<Rightarrow> (string \<times> string) list \<Rightarrow> string"
  DetectContentType :: "bytes \<Rightarrow> string"
  quote :: "string \<Rightarrow> string"

text \<open>The calls a handler makes into the SDK, in the order it makes them.\<close>

datatype call =
    ListObjectsPagesCall Context string
  | UploadCall string string bytes
  | HeadObjectCall string string
  | DownloadCall string string bytes

text \<open>
  What one run of a handler does: the response writer as the handler leaves it, the
  strings printed to standard output, the SDK calls, the \<^verbatim>\<open>os.WriteFile\<close> calls (name,
  data, permission bits), and whether the run ended in a panic.
\<close>

record effects =
  writer :: ResponseWriter
  stdout :: "string list"
  calls :: "call list"
  disk :: "(string \<times> bytes \<times> nat) list"
  panicked :: bool

definition start :: effects where
  "start = \<lparr>writer = new_writer, stdout = [], calls = [], disk = [], panicked = False\<rparr>"

definition respond :: "nat \<Rightarrow> string \<Rightarrow> effects \<Rightarrow> effects" where
  \<comment> \<open>\<^verbatim>\<open>writer.WriteHeader(code); writer.Write([]byte(msg))\<close>\<close>
  "respond code msg s = s\<lparr>writer := Write msg (WriteHeader code (writer s))\<rparr>"

definition print :: "string \<Rightarrow> effects \<Rightarrow> effects" where
  "print msg s = s\<lparr>stdout := stdout s @ [msg]\<rparr>"

definition called :: "call \<Rightarrow> effects \<Rightarrow> effects" where
  "called c s = s\<lparr>calls := calls s @ [c]\<rparr>"

definition panic :: "effects \<Rightarrow> effects" where
  "panic s = s\<lparr>panicked := True\<rparr>"

text \<open>
  What the client of the HTTP server sees. The server sends status 200 when the handler
  returns without having written a header; after a panic it drops the connection.
\<close>

definition response_status :: "effects \<Rightarrow> nat option" where
  "response_status s =
     (if panicked s then None
      else Some (status (WriteHeader 200 (writer s))))"

definition response_header :: "effects \<Rightarrow> string \<rightharpoonup> string" where
  "response_header s = sent_header (WriteHeader 200 (writer s))"

definition response_body :: "effects \<Rightarrow> bytes" where
  "response_body s = body (writer s)"

subsection \<open>Formatting\<close>

definition LF :: string where
  "LF = [CHR 0x0A]"

definition digit :: "nat \<Rightarrow> char" where
  "digit n = ''0123456789'' ! n"

fun decimal :: "nat \<Rightarrow> string" where
  "decimal n = (if n < 10 then [digit n] else decimal (n div 10) @ [digit (n mod 10)])"

declare decimal.simps [simp del]

text \<open>The verb \<^verbatim>\<open>%d\<close> of \<^verbatim>\<open>fmt\<close>, and the JSON encoding of an integer.\<close>

definition FormatInt :: "int64 \<Rightarrow> string" where
  "FormatInt i =
     (if sint i < 0 then CHR ''-'' # decimal (nat (- sint i)) else decimal (nat (sint i)))"

text \<open>
  \<^verbatim>\<open>json.NewEncoder(w).Encode(v)\<close> for a value of type \<^verbatim>\<open>[]s3Data\<close>: \<^verbatim>\<open>null\<close> for a
  nil slice, otherwise an array of objects with the fields in declaration order, and a
  line feed after the value.
\<close>

fun join :: "string \<Rightarrow> string list \<Rightarrow> string" where
  "join sep [] = []"
| "join sep [x] = x"
| "join sep (x # y # ys) = x @ sep @ join sep (y # ys)"

definition json_s3Data :: "(string \<Rightarrow> string) \<Rightarrow> s3Data \<Rightarrow> string" where
  "json_s3Data q d =
     ''{'' @ [CHR 0x22] @ ''Key'' @ [CHR 0x22] @ '':'' @ q (Key d) @
     '','' @ [CHR 0x22] @ ''Size'' @ [CHR 0x22] @ '':'' @ FormatInt (Size d) @ ''}''"

fun json_Marshal :: "(string \<Rightarrow> string) \<Rightarrow> s3Data slice \<Rightarrow> string" where
  "json_Marshal q NilSlice = ''null''"
| "json_Marshal q (Slice ds) = ''['' @ join '','' (map (json_s3Data q) ds) @ '']''"

definition Encode :: "(string \<Rightarrow> string) \<Rightarrow> s3Data slice \<Rightarrow> bytes" where
  "Encode q v = json_Marshal q v @ LF"

section \<open>The list handler\<close>

text \<open>
  The body of the callback given to \<^verbatim>\<open>ListObjectsPagesWithContext\<close>:
  \<^verbatim>\<open>for _, o := range p.Contents { objects = append(objects, s3Data{Key:
  aws.StringValue(o.Key), Size: *aws.Int64(*o.Size)}) }\<close>. Reading \<^verbatim>\<open>*o.Size\<close> of an
  object without a size is a nil dereference: the result \<open>None\<close>.
\<close>

fun collect :: "Object list \<Rightarrow> s3Data slice \<Rightarrow> s3Data slice option" where
  "collect [] objects = Some objects"
| "collect (ob # obs) objects =
     (case Object_Size ob of
        None \<Rightarrow> None
      | Some sz \<Rightarrow>
          collect obs (append_slice objects \<lparr>Key = StringValue (Object_Key ob), Size = sz\<rparr>))"

definition page_callback ::
  "ListObjectsOutput \<Rightarrow> bool \<Rightarrow> s3Data slice \<Rightarrow> (s3Data slice \<times> bool) option" where
  "page_callback p lastPage objects =
     (case collect (Contents p) objects of
        None \<Rightarrow> None
      | Some objects' \<Rightarrow> Some (objects', True))"

text \<open>
  The SDK's paging loop: it calls the function on each page in turn, tells it whether
  the page is the last one, and stops when the function returns false.
\<close>

fun EachPage ::
  "(ListObjectsOutput \<Rightarrow> bool \<Rightarrow> 's \<Rightarrow> ('s \<times> bool) option) \<Rightarrow> ListObjectsOutput list \<Rightarrow> 's
     \<Rightarrow> 's option" where
  "EachPage fn [] s = Some s"
| "EachPage fn (p # ps) s =
     (case fn p (ps = []) s of
        None \<Rightarrow> None
      | Some (s', continue) \<Rightarrow> if continue then EachPage fn ps s' else Some s')"

text \<open>
  Lines 70 to 74 of the handler: \<^verbatim>\<open>ctx := context.Background(); if timeout > 0 { ctx,
  cancelFn = context.WithTimeout(ctx, timeout) }\<close>.
\<close>

definition request_context :: "int64 \<Rightarrow> Context" where
  "request_context timeout =
     (if 0 < sint timeout then WithTimeout Background timeout else Background)"

text \<open>
  \<^verbatim>\<open>func (app *App) listFilesInBucket(writer http.ResponseWriter, request *http.Request)\<close>
\<close>

definition listFilesInBucket :: "world \<Rightarrow> request \<Rightarrow> effects" where
  "listFilesInBucket w rq =
     (let bucket = FormValue rq ''bucket'' in
      case LookupEnv w ''DURATION'' of
        None \<Rightarrow> respond 400 ''could not retrieve duration, %v'' start
      | Some duration \<Rightarrow>
          (case ParseDuration w duration of
             Inl err \<Rightarrow>
               respond 400 (''could not parse provided duration, '' @ Error err) start
           | Inr timeout \<Rightarrow>
               (let ctx = request_context timeout;
                    s = called (ListObjectsPagesCall ctx bucket) start;
                    (pages, err) = ListObjectsPagesWithContext w ctx bucket
                in case EachPage page_callback pages (Slice []) of
                     None \<Rightarrow> panic s
                   | Some objects \<Rightarrow>
                       (case err of
                          Some e \<Rightarrow>
                            respond 400
                              (''failed to list objects for bucket, '' @ bucket @ '', '' @ Error e) s
                        | None \<Rightarrow>
                            print (''successfully retrieved files from bucket: '' @ bucket @ ''.'' @ LF)
                              (s\<lparr>writer := Write (Encode (quote w) objects) (writer s)\<rparr>)))))"

text \<open>
  The handler of \<^verbatim>\<open>main.go\<close> is a function, not a method: it builds the session and
  the client itself, with \<^verbatim>\<open>session.Must\<close>, which panics when the SDK returns an
  error, and then runs the same statements.
\<close>

definition listFilesInBucket_main :: "world \<Rightarrow> request \<Rightarrow> effects" where
  "listFilesInBucket_main w rq =
     (case NewSessionWithOptions w of
        Some e \<Rightarrow> panic start
      | None \<Rightarrow>
          (let ctx0 = Background;
               bucket = FormValue rq ''bucket'' in
           case LookupEnv w ''DURATION'' of
             None \<Rightarrow> respond 400 ''could not retrieve duration, %v'' start
           | Some duration \<Rightarrow>
               (case ParseDuration w duration of
                  Inl err \<Rightarrow>
                    respond 400 (''could not parse provided duration, '' @ Error err) start
                | Inr timeout \<Rightarrow>
                    (let ctx = (if 0 < sint timeout then WithTimeout ctx0 timeout else ctx0);
                         s = called (ListObjectsPagesCall ctx bucket) start;
                         (pages, err) = ListObjectsPagesWithContext w ctx bucket
                     in case EachPage page_callback pages (Slice []) of
                          None \<Rightarrow> panic s
                        | Some objects \<Rightarrow>
                            (case err of
                               Some e \<Rightarrow>
                                 respond 400
                                   (''failed to list objects for bucket, '' @ bucket @ '', '' @ Error e) s
                             | None \<Rightarrow>
                                 print (''successfully retrieved files from bucket: '' @ bucket @ ''.'' @ LF)
                                   (s\<lparr>writer := Write (Encode (quote w) objects) (writer s)\<rparr>))))))"

section \<open>The upload handler\<close>

text \<open>
  \<^verbatim>\<open>func uploadFile(file multipart.File) ([]byte, error)\<close>: \<^verbatim>\<open>io.Copy\<close> of the file
  into a buffer; an error of the copy is wrapped with \<^verbatim>\<open>fmt.Errorf\<close> and no bytes are
  returned.
\<close>

definition uploadFile :: "multipart_File \<Rightarrow> error + bytes" where
  "uploadFile file =
     (case read_error file of
        Some err \<Rightarrow> Inl (Err (''could not upload file. '' @ Error err))
      | None \<Rightarrow> Inr (content file))"

text \<open>
  \<^verbatim>\<open>func (app *App) uploadFileToBucket(writer http.ResponseWriter, request *http.Request)\<close>
\<close>

definition uploadFileToBucket :: "world \<Rightarrow> request \<Rightarrow> effects" where
  "uploadFileToBucket w rq =
     (case FormFile rq ''file'' of
        Inl err \<Rightarrow>
          respond 400 (''could not get file data from request: '' @ Error err) start
      | Inr fileMetadata \<Rightarrow>
          (case uploadFile fileMetadata of
             Inl err \<Rightarrow> respond 400 (''could not upload file: '' @ Error err) start
           | Inr fileData \<Rightarrow>
               (let bucket = FormValue rq ''bucket'';
                    s = called (UploadCall bucket (Filename fileMetadata) fileData) start
                in case Upload w bucket (Filename fileMetadata) fileData of
                     Inl err \<Rightarrow>
                       respond 400 (''failed to upload file to S3 bucket: '' @ Error err) s
                   | Inr location \<Rightarrow>
                       (let s' = print (''file uploaded to, '' @ location @ LF) s
                        in s'\<lparr>writer :=
                             Write (''file uploaded to S3 bucket: '' @ location) (writer s')\<rparr>))))"

section \<open>The download handler\<close>

text \<open>
  \<^verbatim>\<open>make([]byte, n)\<close> gives \<open>n\<close> zero bytes, and panics when \<open>n\<close> is negative or
  beyond what the runtime allocates.
\<close>

definition make_ok :: "world \<Rightarrow> int64 \<Rightarrow> bool" where
  "make_ok w n \<longleftrightarrow> 0 \<le> sint n \<and> nat (sint n) \<le> maxAlloc w"

definition make :: "int64 \<Rightarrow> bytes" where
  "make n = replicate (nat (sint n)) (CHR 0x00)"

text \<open>
  \<^verbatim>\<open>io.Copy(writer, bytes.NewBuffer(buf))\<close>: the buffer writes all its bytes in one
  \<^verbatim>\<open>Write\<close>, and does not call \<^verbatim>\<open>Write\<close> when it is empty.
\<close>

definition io_Copy :: "bytes \<Rightarrow> ResponseWriter \<Rightarrow> ResponseWriter" where
  "io_Copy buf wr = (if buf = [] then wr else Write buf wr)"

text \<open>\<^verbatim>\<open>var fileMode fs.FileMode = 0755\<close> (octal).\<close>

definition fileMode :: nat where
  "fileMode = 7 * 64 + 5 * 8 + 5"

text \<open>
  \<^verbatim>\<open>func (app *App) downloadFileFromBucket(writer http.ResponseWriter, request
  *http.Request)\<close>. After a failed probe both branches of the type test print the
  error, and the handler returns. \<^verbatim>\<open>*result.ContentLength\<close> is a nil dereference when
  the probe's output carries no length.
\<close>

definition downloadFileFromBucket :: "world \<Rightarrow> request \<Rightarrow> effects" where
  "downloadFileFromBucket w rq =
     (let bucket = FormValue rq ''bucket'';
          downloadFile = FormValue rq ''downloadFile'';
          file = FormValue rq ''file'';
          s0 = print (''Attempting to download '' @ file @ '' from bucket: '' @ bucket @ LF) start;
          s1 = called (HeadObjectCall bucket file) s0
      in case HeadObject w bucket file of
           Inl err \<Rightarrow>
             (case err of
                Awserr m \<Rightarrow> print (Error err @ LF) s1
              | Err m \<Rightarrow> print (Error err @ LF) s1)
         | Inr result \<Rightarrow>
             (case ContentLength result of
                None \<Rightarrow> panic s1
              | Some n \<Rightarrow>
                  (let s2 = print (''File size is '' @ FormatInt n @ ''.'' @ LF) s1
                   in if \<not> make_ok w n then panic s2
                      else
                        (let buf0 = make n;
                             s3 = called (DownloadCall bucket file buf0) s2;
                             (buf, objectSize, err) = Download w bucket file buf0;
                             s4 = (case err of
                                     Some e \<Rightarrow>
                                       print (''Could not download file. Reason: '' @ Error e
                                                @ ''.'' @ LF) s3
                                   | None \<Rightarrow> s3);
                             s5 = print (''Downloaded file. Size: '' @ FormatInt objectSize @ LF) s4
                         in if downloadFile = ''yes'' then
                              (let s6 = s5\<lparr>disk := disk s5 @ [(file, buf, fileMode)]\<rparr>
                               in case WriteFile w file buf fileMode of
                                    Some e \<Rightarrow>
                                      print (''Could not write file to '' @ file @ LF
                                               @ ''. Reason: '' @ Error e) s6
                                  | None \<Rightarrow> print (''Wrote file to '' @ file @ LF) s6)
                            else
                              (let cd = FormatMediaType w ''attachment'' [(''filename'', file)];
                                   wr = Header_Set ''Content-Disposition'' cd (writer s5);
                                   wr = Header_Set ''Content-Type'' (DetectContentType w buf) wr;
                                   wr = io_Copy buf wr
                               in print (''Downloaded file.'' @ LF) (s5\<lparr>writer := wr\<rparr>))))))"

section \<open>Runs, and worlds to run the handlers in\<close>

text \<open>
  A run of the list handler: of the method of \<open>App\<close>, or of the function of
  \<^verbatim>\<open>main.go\<close> in a process where the SDK builds its session.
\<close>

definition list_run :: "world \<Rightarrow> request \<Rightarrow> effects \<Rightarrow> bool" where
  "list_run w rq r \<longleftrightarrow>
     r = listFilesInBucket w rq \<or>
     (NewSessionWithOptions w = None \<and> r = listFilesInBucket_main w rq)"

text \<open>
  The download handler once the probe has succeeded and \<^verbatim>\<open>Download\<close> has returned
  (line 176 of the source): the two calls made and the lines printed so far.
\<close>

definition downloaded :: "request \<Rightarrow> int64 \<Rightarrow> int64 \<Rightarrow> error option \<Rightarrow> effects" where
  "downloaded rq n objectSize err =
     print (''Downloaded file. Size: '' @ FormatInt objectSize @ LF)
       ((case err of
           Some e \<Rightarrow> print (''Could not download file. Reason: '' @ Error e @ ''.'' @ LF)
         | None \<Rightarrow> id)
          (called (DownloadCall (FormValue rq ''bucket'') (FormValue rq ''file'') (make n))
             (print (''File size is '' @ FormatInt n @ ''.'' @ LF)
                (called (HeadObjectCall (FormValue rq ''bucket'') (FormValue rq ''file''))
                   (print (''Attempting to download '' @ FormValue rq ''file''
                             @ '' from bucket: '' @ FormValue rq ''bucket'' @ LF) start)))))"

text \<open>
  A bucket \<open>b\<close> that holds \<open>a.txt\<close> (five bytes) and \<open>b.txt\<close>, listed in two pages
  with \<open>a.txt\<close> named twice, an empty bucket \<open>empty\<close>, and a timeout of five seconds.
  The standard library functions are replaced by small stand-ins.
\<close>

definition demo_ParseDuration :: "string \<Rightarrow> error + int64" where
  "demo_ParseDuration s =
     (if s = ''5s'' then Inr 5000000000
      else if s = ''0'' then Inr 0
      else if s = ''-1s'' then Inr (- 1000000000)
      else Inl (Err (''time: invalid duration '' @ s)))"

definition demo_pages :: "ListObjectsOutput list" where
  "demo_pages =
     [\<lparr>Contents = [\<lparr>Object_Key = Some ''a.txt'', Object_Size = Some 5\<rparr>,
                   \<lparr>Object_Key = Some ''b.txt'', Object_Size = Some 12\<rparr>]\<rparr>,
      \<lparr>Contents = [\<lparr>Object_Key = Some ''a.txt'', Object_Size = Some 5\<rparr>]\<rparr>]"

definition demo_world :: world where
  "demo_world =
     \<lparr>LookupEnv = [''DURATION'' \<mapsto> ''5s''],
      ParseDuration = demo_ParseDuration,
      NewSessionWithOptions = None,
      ListObjectsPagesWithContext =
        (\<lambda>ctx bucket. if bucket = ''b'' then (demo_pages, None)
                      else if bucket = ''empty'' then ([\<lparr>Contents = []\<rparr>], None)
                      else ([], Some (Awserr ''NoSuchBucket: The specified bucket does not exist''))),
      Upload =
        (\<lambda>bucket key data. if bucket = ''b'' then Inr (''https://b.s3.amazonaws.com/'' @ key)
                           else Inl (Awserr ''NoSuchBucket: The specified bucket does not exist'')),
      HeadObject =
        (\<lambda>bucket key. if bucket = ''b'' \<and> key = ''a.txt'' then Inr \<lparr>ContentLength = Some 5\<rparr>
                      else Inl (Awserr ''NotFound: Not Found'')),
      Download =
        (\<lambda>bucket key buf. if bucket = ''b'' \<and> key = ''a.txt'' then (''hello'', 5, None)
                          else (buf, 0, Some (Awserr ''NoSuchKey: The specified key does not exist.''))),
      WriteFile = (\<lambda>name data perm. None),
      maxAlloc = 2 ^ 48,
      FormatMediaType = (\<lambda>t params. t @ concat (map (\<lambda>(a, v). ''; '' @ a @ ''='' @ v) params)),
      DetectContentType = (\<lambda>data. ''text/plain; charset=utf-8''),
      quote = (\<lambda>s. [CHR 0x22] @ s @ [CHR 0x22])\<rparr>"

text \<open>The same world with the probe, or the download, failing on the network.\<close>

definition probe_down_world :: world where
  "probe_down_world =
     demo_world\<lparr>HeadObject := \<lambda>bucket key. Inl (Err ''RequestError: send request failed'')\<rparr>"

definition download_down_world :: world where
  "download_down_world =
     demo_world\<lparr>Download := \<lambda>bucket key buf. (buf, 0, Some (Err ''RequestError: send request failed''))\<rparr>"

text \<open>The same world on a disk that cannot be written.\<close>

definition read_only_world :: world where
  "read_only_world =
     demo_world\<lparr>WriteFile := \<lambda>name data perm. Some (Err (''open '' @ name @ '': read-only file system''))\<rparr>"

text \<open>Requests: form fields, and the file part of a multipart form (or its absence).\<close>

definition form_request :: "(string \<times> string) list \<Rightarrow> (error + multipart_File) \<Rightarrow> request" where
  "form_request kvs file =
     \<lparr>Form = (\<lambda>k. map snd (filter (\<lambda>kv. fst kv = k) kvs)),
      FormFile = (\<lambda>k. if k = ''file'' then file else Inl (Err ''http: no such file''))\<rparr>"

definition list_request :: request where
  "list_request = form_request [(''bucket'', ''b'')] (Inl (Err ''http: no such file''))"

definition upload_request :: request where
  "upload_request =
     form_request [(''bucket'', ''b'')]
       (Inr \<lparr>Filename = ''a.txt'', content = ''hello'', read_error = None\<rparr>)"

text \<open>The same upload, with a path as the name of the file.\<close>

definition nested_upload_request :: request where
  "nested_upload_request =
     form_request [(''bucket'', ''b'')]
       (multipart_FormFile \<lparr>part_filename = ''dir/sub/a.txt'', part_data = ''hello''\<rparr>)"

definition download_request :: "string \<Rightarrow> string \<Rightarrow> request" where
  "download_request file downloadFile =
     form_request [(''bucket'', ''b''), (''file'', file), (''downloadFile'', downloadFile)]
       (Inl (Err ''http: no such file''))"

section \<open>Evaluation\<close>

lemmas effect_defs =
  respond_def print_def called_def panic_def start_def new_writer_def Write_def
  WriteHeader_def Header_Set_def io_Copy_def response_status_def response_body_def
  response_header_def Let_def

lemmas demo_defs =
  demo_world_def demo_ParseDuration_def demo_pages_def form_request_def list_request_def
  upload_request_def download_request_def probe_down_world_def download_down_world_def
  read_only_world_def FormValue_def

text \<open>The decimal digits of a number, and the encoder on a slice of two descriptors.\<close>

lemma decimal_digit: "n < 10 \<Longrightarrow> decimal n = [digit n]"
  by (subst decimal.simps) simp

lemma decimal_more: "\<not> n < 10 \<Longrightarrow> decimal n = decimal (n div 10) @ [digit (n mod 10)]"
  by (subst decimal.simps) simp

lemma FormatInt_examples:
  "FormatInt 0 = ''0''" "FormatInt 12 = ''12''" "FormatInt (- 307) = ''-307''"
  "FormatInt 5000000000 = ''5000000000''"
  by (simp_all add: FormatInt_def decimal_digit decimal_more digit_def)

lemma Encode_example:
  "Encode id (Slice [\<lparr>Key = ''k'', Size = 12\<rparr>, \<lparr>Key = ''l'', Size = 0\<rparr>]) =
     ''[{'' @ [CHR 0x22] @ ''Key'' @ [CHR 0x22] @ '':k,'' @ [CHR 0x22] @ ''Size'' @ [CHR 0x22]
       @ '':12},{'' @ [CHR 0x22] @ ''Key'' @ [CHR 0x22] @ '':l,'' @ [CHR 0x22] @ ''Size''
       @ [CHR 0x22] @ '':0}]'' @ LF"
  by (simp add: Encode_def json_s3Data_def FormatInt_def decimal_digit decimal_more digit_def)

lemma FormValue_list_request: "FormValue list_request ''bucket'' = ''b''"
  by (simp add: FormValue_def list_request_def form_request_def)

section \<open>Properties of the list handler\<close>

text \<open>Both list handlers run the same statements once the session exists.\<close>

lemma main_eq:
  "NewSessionWithOptions w = None \<Longrightarrow> listFilesInBucket_main w rq = listFilesInBucket w rq"
  by (simp add: listFilesInBucket_main_def listFilesInBucket_def request_context_def Let_def
        split: option.splits sum.splits)

lemma list_run_eq: "list_run w rq r \<Longrightarrow> r = listFilesInBucket w rq"
  by (auto simp: list_run_def main_eq)

text \<open>The handler, by the way the lookup and the parse of \<^verbatim>\<open>DURATION\<close> end.\<close>

lemma list_no_duration:
  "LookupEnv w ''DURATION'' = None \<Longrightarrow>
   listFilesInBucket w rq = respond 400 ''could not retrieve duration, %v'' start"
  by (simp add: listFilesInBucket_def)

lemma list_bad_duration:
  "LookupEnv w ''DURATION'' = Some d \<Longrightarrow> ParseDuration w d = Inl e \<Longrightarrow>
   listFilesInBucket w rq =
     respond 400 (''could not parse provided duration, '' @ Error e) start"
  by (simp add: listFilesInBucket_def)

lemma list_parsed:
  "LookupEnv w ''DURATION'' = Some d \<Longrightarrow> ParseDuration w d = Inr t \<Longrightarrow>
   ListObjectsPagesWithContext w (request_context t) (FormValue rq ''bucket'') = (pages, err) \<Longrightarrow>
   listFilesInBucket w rq =
     (let bucket = FormValue rq ''bucket'';
          s = called (ListObjectsPagesCall (request_context t) bucket) start
      in case EachPage page_callback pages (Slice []) of
           None \<Rightarrow> panic s
         | Some objects \<Rightarrow>
             (case err of
                Some e \<Rightarrow>
                  respond 400
                    (''failed to list objects for bucket, '' @ bucket @ '', '' @ Error e) s
              | None \<Rightarrow>
                  print (''successfully retrieved files from bucket: '' @ bucket @ ''.'' @ LF)
                    (s\<lparr>writer := Write (Encode (quote w) objects) (writer s)\<rparr>)))"
  by (simp add: listFilesInBucket_def Let_def)

text \<open>
  The callback appends one descriptor per object, in order, to what it has; it fails
  only on an object without a size.
\<close>

lemma collect_Slice:
  "collect obs (Slice acc) = Some r \<Longrightarrow>
   \<exists>ds. r = Slice (acc @ ds) \<and> map Key ds = map (\<lambda>ob. StringValue (Object_Key ob)) obs \<and>
        map (\<lambda>d. Some (Size d)) ds = map Object_Size obs"
proof (induction obs arbitrary: acc)
  case Nil
  then show ?case by simp
next
  case (Cons ob obs)
  from Cons.prems obtain sz where sz: "Object_Size ob = Some sz"
    and rest: "collect obs (Slice (acc @ [\<lparr>Key = StringValue (Object_Key ob), Size = sz\<rparr>])) = Some r"
    by (auto split: option.splits)
  from Cons.IH [OF rest] obtain ds where
    ds: "r = Slice ((acc @ [\<lparr>Key = StringValue (Object_Key ob), Size = sz\<rparr>]) @ ds)"
        "map Key ds = map (\<lambda>ob. StringValue (Object_Key ob)) obs"
        "map (\<lambda>d. Some (Size d)) ds = map Object_Size obs"
    by blast
  show ?case
    by (rule exI [of _ "\<lparr>Key = StringValue (Object_Key ob), Size = sz\<rparr> # ds"])
       (simp add: ds sz)
qed

lemma EachPage_Cons:
  "EachPage page_callback (p # ps) s =
     (case collect (Contents p) s of None \<Rightarrow> None | Some s' \<Rightarrow> EachPage page_callback ps s')"
  by (simp add: page_callback_def split: option.splits)

lemma EachPage_collect:
  "EachPage page_callback pages (Slice acc) = Some r \<Longrightarrow>
   \<exists>ds. r = Slice (acc @ ds) \<and>
        map Key ds = map (\<lambda>ob. StringValue (Object_Key ob)) (concat (map Contents pages)) \<and>
        map (\<lambda>d. Some (Size d)) ds = map Object_Size (concat (map Contents pages))"
proof (induction pages arbitrary: acc)
  case Nil
  then show ?case by simp
next
  case (Cons p ps)
  from Cons.prems obtain mid where mid: "collect (Contents p) (Slice acc) = Some mid"
    and rest: "EachPage page_callback ps mid = Some r"
    by (auto simp: EachPage_Cons simp del: EachPage.simps split: option.splits)
  from collect_Slice [OF mid] obtain ds1 where
    ds1: "mid = Slice (acc @ ds1)" "map Key ds1 = map (\<lambda>ob. StringValue (Object_Key ob)) (Contents p)"
         "map (\<lambda>d. Some (Size d)) ds1 = map Object_Size (Contents p)"
    by blast
  from Cons.IH [of "acc @ ds1"] rest ds1(1) obtain ds2 where
    ds2: "r = Slice ((acc @ ds1) @ ds2)"
         "map Key ds2 = map (\<lambda>ob. StringValue (Object_Key ob)) (concat (map Contents ps))"
         "map (\<lambda>d. Some (Size d)) ds2 = map Object_Size (concat (map Contents ps))"
    by blast
  show ?case
    by (rule exI [of _ "ds1 @ ds2"]) (simp add: ds1 ds2)
qed

text \<open>The paging ends in a panic exactly when some object has no size.\<close>

lemma collect_None:
  "collect obs s = None \<longleftrightarrow> (\<exists>ob\<in>set obs. Object_Size ob = None)"
  by (induction obs arbitrary: s) (auto split: option.splits)

lemma EachPage_None:
  "EachPage page_callback pages s = None \<longleftrightarrow>
     (\<exists>ob\<in>set (concat (map Contents pages)). Object_Size ob = None)"
proof (induction pages arbitrary: s)
  case Nil
  then show ?case by simp
next
  case (Cons p ps)
  show ?case
  proof (cases "collect (Contents p) s")
    case None
    then show ?thesis
      using collect_None [of "Contents p" s] by (auto simp: EachPage_Cons simp del: EachPage.simps)
  next
    case (Some s')
    then have "\<forall>ob\<in>set (Contents p). Object_Size ob \<noteq> None"
      using collect_None [of "Contents p" s] by auto
    then show ?thesis
      using Some Cons.IH [of s'] by (auto simp: EachPage_Cons simp del: EachPage.simps)
  qed
qed

text \<open>
  Claim C2. With the pages the provider returns for the request, the list handler
  answers with success exactly when the listing ends without error and every object has
  a size; the body of a success response is the JSON encoding of an array with one
  \<open>{Key, Size}\<close> descriptor per object of those pages: as many descriptors as objects,
  with the keys and sizes of the objects in the provider's order, repeated keys kept.
\<close>

theorem list_descriptors:
  assumes "list_run w rq r"
    and "LookupEnv w ''DURATION'' = Some d" and "ParseDuration w d = Inr t"
    and "ListObjectsPagesWithContext w (request_context t) (FormValue rq ''bucket'') = (pages, err)"
  shows "(response_status r = Some 200 \<longleftrightarrow>
            err = None \<and> (\<forall>ob\<in>set (concat (map Contents pages)). Object_Size ob \<noteq> None)) \<and>
         (response_status r = Some 200 \<longrightarrow>
            (\<exists>ds. response_body r = Encode (quote w) (Slice ds) \<and>
               length ds = length (concat (map Contents pages)) \<and>
               map Key ds = map (\<lambda>ob. StringValue (Object_Key ob)) (concat (map Contents pages)) \<and>
               map (\<lambda>d. Some (Size d)) ds = map Object_Size (concat (map Contents pages))))"
proof -
  have r: "r = listFilesInBucket w rq"
    using assms(1) by (rule list_run_eq)
  note run = list_parsed [OF assms(2,3,4)]
  show ?thesis
  proof (cases "EachPage page_callback pages (Slice [])")
    case None
    then have "\<exists>ob\<in>set (concat (map Contents pages)). Object_Size ob = None"
      by (simp only: EachPage_None)
    moreover have "response_status r = None"
      using None by (simp add: r run effect_defs)
    ultimately show ?thesis by auto
  next
    case (Some objects)
    then have sizes: "\<forall>ob\<in>set (concat (map Contents pages)). Object_Size ob \<noteq> None"
      using EachPage_None [of pages "Slice []"] by auto
    from EachPage_collect [OF Some] obtain ds where
      ds: "objects = Slice ds"
          "map Key ds = map (\<lambda>ob. StringValue (Object_Key ob)) (concat (map Contents pages))"
          "map (\<lambda>d. Some (Size d)) ds = map Object_Size (concat (map Contents pages))"
      by auto
    have len: "length ds = length (concat (map Contents pages))"
      using ds(2) by (rule map_eq_imp_length_eq)
    show ?thesis
    proof (cases err)
      case None
      then have "response_status r = Some 200" "response_body r = Encode (quote w) (Slice ds)"
        using Some ds(1) by (simp_all add: r run effect_defs)
      with None sizes ds len show ?thesis by blast
    next
      case (Some e)
      then have "response_status r = Some 400"
        using \<open>EachPage page_callback pages (Slice []) = Some objects\<close>
        by (simp add: r run effect_defs)
      with Some show ?thesis by simp
    qed
  qed
qed

text \<open>
  Bucket \<open>b\<close>: three objects in two pages, \<open>a.txt\<close> twice, give three descriptors.
\<close>

theorem list_descriptors_witness:
  "list_run demo_world list_request (listFilesInBucket demo_world list_request) \<and>
   LookupEnv demo_world ''DURATION'' = Some ''5s'' \<and>
   ParseDuration demo_world ''5s'' = Inr 5000000000 \<and>
   ListObjectsPagesWithContext demo_world (request_context 5000000000)
     (FormValue list_request ''bucket'') = (demo_pages, None) \<and>
   response_status (listFilesInBucket demo_world list_request) = Some 200 \<and>
   (\<exists>ds. response_body (listFilesInBucket demo_world list_request)
           = Encode (quote demo_world) (Slice ds) \<and>
         length ds = 3 \<and> map Key ds = [''a.txt'', ''b.txt'', ''a.txt''])"
proof -
  have run: "list_run demo_world list_request (listFilesInBucket demo_world list_request)"
    by (simp add: list_run_def)
  have env: "LookupEnv demo_world ''DURATION'' = Some ''5s''"
    by (simp add: demo_world_def)
  have dur: "ParseDuration demo_world ''5s'' = Inr 5000000000"
    by (simp add: demo_world_def demo_ParseDuration_def)
  have pages: "ListObjectsPagesWithContext demo_world (request_context 5000000000)
      (FormValue list_request ''bucket'') = (demo_pages, None)"
    by (simp add: demo_world_def FormValue_list_request)
  from list_descriptors [OF run env dur pages] run env dur pages
  show ?thesis
    by (auto simp: demo_pages_def)
qed

text \<open>
  Claim C3. When \<^verbatim>\<open>DURATION\<close> is not in the environment, or is there and does not
  parse as a duration, the list handler answers 400, in the second case with the parse
  error in the body, and makes no call to the provider.
\<close>

theorem list_duration:
  assumes "list_run w rq r"
    and "LookupEnv w ''DURATION'' = None \<or>
         (LookupEnv w ''DURATION'' = Some d \<and> ParseDuration w d = Inl e)"
  shows "response_status r = Some 400 \<and> calls r = [] \<and>
         response_body r =
           (if LookupEnv w ''DURATION'' = None then ''could not retrieve duration, %v''
            else ''could not parse provided duration, '' @ Error e)"
proof -
  have r: "r = listFilesInBucket w rq"
    using assms(1) by (rule list_run_eq)
  from assms(2) show ?thesis
  proof
    assume "LookupEnv w ''DURATION'' = None"
    then show ?thesis by (simp add: r list_no_duration effect_defs)
  next
    assume "LookupEnv w ''DURATION'' = Some d \<and> ParseDuration w d = Inl e"
    then show ?thesis by (simp add: r list_bad_duration effect_defs)
  qed
qed

text \<open>The variable absent, and the variable set to \<open>soon\<close>.\<close>

theorem list_duration_witness:
  "list_run (demo_world\<lparr>LookupEnv := Map.empty\<rparr>) list_request
     (listFilesInBucket (demo_world\<lparr>LookupEnv := Map.empty\<rparr>) list_request) \<and>
   LookupEnv (demo_world\<lparr>LookupEnv := Map.empty\<rparr>) ''DURATION'' = None \<and>
   response_status (listFilesInBucket (demo_world\<lparr>LookupEnv := Map.empty\<rparr>) list_request) = Some 400 \<and>
   list_run (demo_world\<lparr>LookupEnv := [''DURATION'' \<mapsto> ''soon'']\<rparr>) list_request
     (listFilesInBucket_main (demo_world\<lparr>LookupEnv := [''DURATION'' \<mapsto> ''soon'']\<rparr>) list_request) \<and>
   ParseDuration (demo_world\<lparr>LookupEnv := [''DURATION'' \<mapsto> ''soon'']\<rparr>) ''soon''
     = Inl (Err ''time: invalid duration soon'') \<and>
   response_body (listFilesInBucket_main (demo_world\<lparr>LookupEnv := [''DURATION'' \<mapsto> ''soon'']\<rparr>) list_request)
     = ''could not parse provided duration, time: invalid duration soon'' \<and>
   calls (listFilesInBucket_main (demo_world\<lparr>LookupEnv := [''DURATION'' \<mapsto> ''soon'']\<rparr>) list_request) = []"
  using
    list_duration [of "demo_world\<lparr>LookupEnv := Map.empty\<rparr>" list_request
      "listFilesInBucket (demo_world\<lparr>LookupEnv := Map.empty\<rparr>) list_request"]
    list_duration [of "demo_world\<lparr>LookupEnv := [''DURATION'' \<mapsto> ''soon'']\<rparr>" list_request
      "listFilesInBucket_main (demo_world\<lparr>LookupEnv := [''DURATION'' \<mapsto> ''soon'']\<rparr>) list_request"
      "''soon''" "Err ''time: invalid duration soon''"]
  by (simp add: list_run_def demo_world_def demo_ParseDuration_def)

text \<open>
  Claim C8. With \<^verbatim>\<open>DURATION\<close> parsed to \<open>t\<close>, the handler makes one listing call; its
  context has the deadline \<open>t\<close> exactly when \<open>t\<close> is positive, and for \<open>t\<close> zero or
  negative it is the background context, which has no deadline.
\<close>

theorem list_timeout:
  assumes "list_run w rq r"
    and "LookupEnv w ''DURATION'' = Some d" and "ParseDuration w d = Inr t"
  shows "calls r = [ListObjectsPagesCall (request_context t) (FormValue rq ''bucket'')] \<and>
         (Deadline (request_context t) = Some t \<longleftrightarrow> 0 < sint t) \<and>
         (sint t \<le> 0 \<longrightarrow> request_context t = Background \<and> Deadline (request_context t) = None)"
proof -
  have r: "r = listFilesInBucket w rq"
    using assms(1) by (rule list_run_eq)
  obtain pages err where
    l: "ListObjectsPagesWithContext w (request_context t) (FormValue rq ''bucket'') = (pages, err)"
    by (cases "ListObjectsPagesWithContext w (request_context t) (FormValue rq ''bucket'')")
  have "calls r = [ListObjectsPagesCall (request_context t) (FormValue rq ''bucket'')]"
    by (simp add: r list_parsed [OF assms(2,3) l] effect_defs split: option.splits)
  then show ?thesis
    by (simp add: request_context_def)
qed

text \<open>Five seconds.\<close>

theorem list_timeout_witness:
  "list_run demo_world list_request (listFilesInBucket demo_world list_request) \<and>
   LookupEnv demo_world ''DURATION'' = Some ''5s'' \<and>
   ParseDuration demo_world ''5s'' = Inr 5000000000 \<and>
   calls (listFilesInBucket demo_world list_request) =
     [ListObjectsPagesCall (request_context 5000000000) ''b''] \<and>
   Deadline (request_context 5000000000) = Some 5000000000"
  using list_timeout [of demo_world list_request "listFilesInBucket demo_world list_request"
      "''5s''" 5000000000]
  by (simp add: list_run_def demo_world_def demo_ParseDuration_def FormValue_list_request)

text \<open>
  Claim C9. When the listing succeeds and the pages hold no object, the body is the JSON
  text \<open>[]\<close> (followed by the line feed the encoder ends every value with), not
  \<open>null\<close>, which is what the encoder writes for a nil slice: the handler starts from
  \<^verbatim>\<open>[]s3Data{}\<close>.
\<close>

theorem list_empty:
  assumes "list_run w rq r"
    and "LookupEnv w ''DURATION'' = Some d" and "ParseDuration w d = Inr t"
    and "ListObjectsPagesWithContext w (request_context t) (FormValue rq ''bucket'') = (pages, None)"
    and "concat (map Contents pages) = []"
  shows "response_status r = Some 200 \<and> response_body r = ''[]'' @ LF \<and>
         response_body r \<noteq> ''null'' @ LF \<and> Encode (quote w) NilSlice = ''null'' @ LF"
proof -
  have r: "r = listFilesInBucket w rq"
    using assms(1) by (rule list_run_eq)
  have "EachPage page_callback pages (Slice acc) = Some (Slice acc)" for acc
    using assms(5) by (induction pages) (simp_all add: EachPage_Cons del: EachPage.simps(2))
  then show ?thesis
    by (simp add: r list_parsed [OF assms(2,3,4)] effect_defs Encode_def)
qed

text \<open>The bucket \<open>empty\<close>, listed as one page without contents.\<close>

theorem list_empty_witness:
  "list_run demo_world (form_request [(''bucket'', ''empty'')] (Inl (Err ''http: no such file'')))
     (listFilesInBucket_main demo_world
        (form_request [(''bucket'', ''empty'')] (Inl (Err ''http: no such file'')))) \<and>
   LookupEnv demo_world ''DURATION'' = Some ''5s'' \<and>
   ParseDuration demo_world ''5s'' = Inr 5000000000 \<and>
   ListObjectsPagesWithContext demo_world (request_context 5000000000) ''empty''
     = ([\<lparr>Contents = []\<rparr>], None) \<and>
   response_body (listFilesInBucket_main demo_world
        (form_request [(''bucket'', ''empty'')] (Inl (Err ''http: no such file'')))) = ''[]'' @ LF"
  using list_empty [of demo_world
      "form_request [(''bucket'', ''empty'')] (Inl (Err ''http: no such file''))"
      "listFilesInBucket_main demo_world
         (form_request [(''bucket'', ''empty'')] (Inl (Err ''http: no such file'')))"
      "''5s''" 5000000000 "[\<lparr>Contents = []\<rparr>]"]
  by (simp add: list_run_def demo_world_def demo_ParseDuration_def FormValue_def form_request_def)

section \<open>Properties of the upload handler\<close>

text \<open>The handler, by the way the form and the read of the file end.\<close>

lemma upload_no_file:
  "FormFile rq ''file'' = Inl e \<Longrightarrow>
   uploadFileToBucket w rq =
     respond 400 (''could not get file data from request: '' @ Error e) start"
  by (simp add: uploadFileToBucket_def)

lemma upload_read_error:
  "FormFile rq ''file'' = Inr f \<Longrightarrow> read_error f = Some e \<Longrightarrow>
   uploadFileToBucket w rq =
     respond 400 (''could not upload file: could not upload file. '' @ Error e) start"
  by (simp add: uploadFileToBucket_def uploadFile_def)

lemma upload_read:
  "FormFile rq ''file'' = Inr f \<Longrightarrow> read_error f = None \<Longrightarrow>
   uploadFileToBucket w rq =
     (let bucket = FormValue rq ''bucket'';
          s = called (UploadCall bucket (Filename f) (content f)) start
      in case Upload w bucket (Filename f) (content f) of
           Inl err \<Rightarrow> respond 400 (''failed to upload file to S3 bucket: '' @ Error err) s
         | Inr location \<Rightarrow>
             (let s' = print (''file uploaded to, '' @ location @ LF) s
              in s'\<lparr>writer := Write (''file uploaded to S3 bucket: '' @ location) (writer s')\<rparr>))"
  by (simp add: uploadFileToBucket_def uploadFile_def)

text \<open>The last element of a path is never empty, and a name without a slash is its own.\<close>

lemma filepath_Base_examples:
  "filepath_Base ''a.txt'' = ''a.txt''" "filepath_Base ''dir/sub/a.txt'' = ''a.txt''"
  "filepath_Base ''dir/sub/'' = ''sub''" "filepath_Base ''//'' = ''/''"
  "filepath_Base ''../../etc/passwd'' = ''passwd''"
  by (simp_all add: filepath_Base_def)

lemma filepath_Base_not_empty: "filepath_Base path \<noteq> []"
  by (simp add: filepath_Base_def Let_def)

lemma multipart_FormFile_named:
  "part_filename p \<noteq> [] \<Longrightarrow>
   multipart_FormFile p =
     Inr \<lparr>Filename = filepath_Base (part_filename p), content = part_data p, read_error = None\<rparr>"
  by (simp add: multipart_FormFile_def Part_FileName_def filepath_Base_not_empty)

lemma filepath_Base_no_separator:
  "CHR ''/'' \<notin> set name \<Longrightarrow> name \<noteq> [] \<Longrightarrow> filepath_Base name = name"
proof -
  assume free: "CHR ''/'' \<notin> set name" and "name \<noteq> []"
  have keep: "dropWhile (\<lambda>c. c = CHR ''/'') (rev name) = rev name"
    using free by (cases "rev name") auto
  have take: "takeWhile (\<lambda>c. c \<noteq> CHR ''/'') (rev name) = rev name"
    using free by (auto simp: takeWhile_eq_all_conv)
  show ?thesis
    unfolding filepath_Base_def Let_def keep rev_rev_ident take
    using \<open>name \<noteq> []\<close> by simp
qed

text \<open>
  Claim C4, as the code has it. For a request with bucket \<open>b\<close> whose file reads as the
  bytes \<open>d\<close>, the handler calls the uploader once, with bucket \<open>b\<close>, body \<open>d\<close> and as
  key the \<^verbatim>\<open>Filename\<close> that \<^verbatim>\<open>request.FormFile\<close> reports, which the handler neither
  cleans nor prefixes. For a part that the client named \<open>f\<close>, that key is the last
  path element of \<open>f\<close>: it is \<open>f\<close> itself when \<open>f\<close> has no slash.
\<close>

theorem upload_key_is_form_filename:
  "(FormFile rq ''file'' = Inr f \<and> read_error f = None \<longrightarrow>
      calls (uploadFileToBucket w rq)
        = [UploadCall (FormValue rq ''bucket'') (Filename f) (content f)]) \<and>
   (FormFile rq ''file'' = multipart_FormFile p \<and> part_filename p \<noteq> [] \<longrightarrow>
      calls (uploadFileToBucket w rq)
        = [UploadCall (FormValue rq ''bucket'') (filepath_Base (part_filename p)) (part_data p)]) \<and>
   (FormFile rq ''file'' = multipart_FormFile p \<and> part_filename p \<noteq> [] \<and>
    CHR ''/'' \<notin> set (part_filename p) \<longrightarrow>
      calls (uploadFileToBucket w rq)
        = [UploadCall (FormValue rq ''bucket'') (part_filename p) (part_data p)])"
proof -
  have reported: "calls (uploadFileToBucket w rq)
      = [UploadCall (FormValue rq ''bucket'') (Filename g) (content g)]"
    if "FormFile rq ''file'' = Inr g" and "read_error g = None" for g
  proof (cases "Upload w (FormValue rq ''bucket'') (Filename g) (content g)")
    case (Inl err)
    then show ?thesis
      by (simp add: upload_read [OF that] effect_defs)
  next
    case (Inr location)
    then show ?thesis
      by (simp add: upload_read [OF that] effect_defs)
  qed
  have sent: "calls (uploadFileToBucket w rq)
      = [UploadCall (FormValue rq ''bucket'') (filepath_Base (part_filename p)) (part_data p)]"
    if "FormFile rq ''file'' = multipart_FormFile p" and "part_filename p \<noteq> []"
    using reported [of "\<lparr>Filename = filepath_Base (part_filename p), content = part_data p,
        read_error = None\<rparr>"] that
    by (simp add: multipart_FormFile_named)
  show ?thesis
    using reported [of f] sent by (auto simp: filepath_Base_no_separator)
qed

text \<open>
  The file \<open>a.txt\<close> with content \<open>hello\<close> for bucket \<open>b\<close>, sent under its name and
  sent as \<open>dir/sub/a.txt\<close>.
\<close>

theorem upload_key_is_form_filename_witness:
  "FormFile upload_request ''file''
     = Inr \<lparr>Filename = ''a.txt'', content = ''hello'', read_error = None\<rparr> \<and>
   FormFile upload_request ''file''
     = multipart_FormFile \<lparr>part_filename = ''a.txt'', part_data = ''hello''\<rparr> \<and>
   calls (uploadFileToBucket demo_world upload_request) = [UploadCall ''b'' ''a.txt'' ''hello''] \<and>
   FormFile nested_upload_request ''file''
     = multipart_FormFile \<lparr>part_filename = ''dir/sub/a.txt'', part_data = ''hello''\<rparr> \<and>
   calls (uploadFileToBucket demo_world nested_upload_request)
     = [UploadCall ''b'' (filepath_Base ''dir/sub/a.txt'') ''hello'']"
  using
    upload_key_is_form_filename [of upload_request
      "\<lparr>Filename = ''a.txt'', content = ''hello'', read_error = None\<rparr>" demo_world
      "\<lparr>part_filename = ''a.txt'', part_data = ''hello''\<rparr>"]
    upload_key_is_form_filename [of nested_upload_request
      "\<lparr>Filename = ''a.txt'', content = ''hello'', read_error = None\<rparr>" demo_world
      "\<lparr>part_filename = ''dir/sub/a.txt'', part_data = ''hello''\<rparr>"]
  by (simp add: demo_defs nested_upload_request_def multipart_FormFile_def Part_FileName_def
        filepath_Base_def)

text \<open>
  Claim C4 as written says that the key is the filename the client supplied. A client
  that names its file \<open>dir/sub/a.txt\<close> gets the key \<open>a.txt\<close>.
\<close>

theorem upload_client_filename_counterexample:
  "FormFile nested_upload_request ''file''
     = multipart_FormFile \<lparr>part_filename = ''dir/sub/a.txt'', part_data = ''hello''\<rparr> \<and>
   calls (uploadFileToBucket demo_world nested_upload_request)
     = [UploadCall ''b'' ''a.txt'' ''hello''] \<and>
   calls (uploadFileToBucket demo_world nested_upload_request)
     \<noteq> [UploadCall ''b'' ''dir/sub/a.txt'' ''hello'']"
  by (simp add: uploadFileToBucket_def uploadFile_def nested_upload_request_def
        multipart_FormFile_def Part_FileName_def filepath_Base_def demo_defs effect_defs)

text \<open>
  Claim C7. Each failure of an upload ends the handler with status 400 and a message of
  its own: a request without the file part, before anything is read or uploaded; a read
  error, before any upload; a failed upload, after the one call, with no success line
  printed or written.
\<close>

theorem upload_failures:
  "(FormFile rq ''file'' = Inl e \<longrightarrow>
      response_status (uploadFileToBucket w rq) = Some 400 \<and>
      response_body (uploadFileToBucket w rq)
        = ''could not get file data from request: '' @ Error e \<and>
      calls (uploadFileToBucket w rq) = [] \<and> stdout (uploadFileToBucket w rq) = []) \<and>
   (FormFile rq ''file'' = Inr f \<and> read_error f = Some e \<longrightarrow>
      response_status (uploadFileToBucket w rq) = Some 400 \<and>
      response_body (uploadFileToBucket w rq)
        = ''could not upload file: could not upload file. '' @ Error e \<and>
      calls (uploadFileToBucket w rq) = [] \<and> stdout (uploadFileToBucket w rq) = []) \<and>
   (FormFile rq ''file'' = Inr f \<and> read_error f = None \<and>
    Upload w (FormValue rq ''bucket'') (Filename f) (content f) = Inl e \<longrightarrow>
      response_status (uploadFileToBucket w rq) = Some 400 \<and>
      response_body (uploadFileToBucket w rq)
        = ''failed to upload file to S3 bucket: '' @ Error e \<and>
      calls (uploadFileToBucket w rq)
        = [UploadCall (FormValue rq ''bucket'') (Filename f) (content f)] \<and>
      stdout (uploadFileToBucket w rq) = [])"
proof (intro conjI impI; (elim conjE)?)
  assume "FormFile rq ''file'' = Inl e"
  note run = upload_no_file [OF this]
  show "response_status (uploadFileToBucket w rq) = Some 400"
    and "response_body (uploadFileToBucket w rq)
           = ''could not get file data from request: '' @ Error e"
    and "calls (uploadFileToBucket w rq) = []" and "stdout (uploadFileToBucket w rq) = []"
    by (simp_all add: run [of w] effect_defs)
next
  assume "FormFile rq ''file'' = Inr f" and "read_error f = Some e"
  note run = upload_read_error [OF this]
  show "response_status (uploadFileToBucket w rq) = Some 400"
    and "response_body (uploadFileToBucket w rq)
           = ''could not upload file: could not upload file. '' @ Error e"
    and "calls (uploadFileToBucket w rq) = []" and "stdout (uploadFileToBucket w rq) = []"
    by (simp_all add: run [of w] effect_defs)
next
  assume part: "FormFile rq ''file'' = Inr f" "read_error f = None"
    and up: "Upload w (FormValue rq ''bucket'') (Filename f) (content f) = Inl e"
  note run = upload_read [OF part, of w]
  show "response_status (uploadFileToBucket w rq) = Some 400"
    and "response_body (uploadFileToBucket w rq)
           = ''failed to upload file to S3 bucket: '' @ Error e"
    and "calls (uploadFileToBucket w rq)
           = [UploadCall (FormValue rq ''bucket'') (Filename f) (content f)]"
    and "stdout (uploadFileToBucket w rq) = []"
    by (simp_all add: run up effect_defs)
qed

text \<open>No file part; a file that breaks off while read; a bucket that does not exist.\<close>

theorem upload_failures_witness:
  "FormFile list_request ''file'' = Inl (Err ''http: no such file'') \<and>
   response_status (uploadFileToBucket demo_world list_request) = Some 400 \<and>
   response_body (uploadFileToBucket demo_world list_request)
     = ''could not get file data from request: http: no such file'' \<and>
   response_body (uploadFileToBucket demo_world
      (form_request [(''bucket'', ''b'')]
         (Inr \<lparr>Filename = ''a.txt'', content = ''hel'',
               read_error = Some (Err ''unexpected EOF'')\<rparr>)))
     = ''could not upload file: could not upload file. unexpected EOF'' \<and>
   calls (uploadFileToBucket demo_world
      (form_request [(''bucket'', ''b'')]
         (Inr \<lparr>Filename = ''a.txt'', content = ''hel'',
               read_error = Some (Err ''unexpected EOF'')\<rparr>))) = [] \<and>
   response_body (uploadFileToBucket demo_world
      (form_request [(''bucket'', ''nope'')]
         (Inr \<lparr>Filename = ''a.txt'', content = ''hello'', read_error = None\<rparr>)))
     = ''failed to upload file to S3 bucket: NoSuchBucket: The specified bucket does not exist''"
  using
    upload_failures [of list_request "Err ''http: no such file''" demo_world]
    upload_failures [of
      "form_request [(''bucket'', ''b'')]
         (Inr \<lparr>Filename = ''a.txt'', content = ''hel'',
               read_error = Some (Err ''unexpected EOF'')\<rparr>)"
      "Err ''unexpected EOF'' " demo_world
      "\<lparr>Filename = ''a.txt'', content = ''hel'', read_error = Some (Err ''unexpected EOF'')\<rparr>"]
    upload_failures [of
      "form_request [(''bucket'', ''nope'')]
         (Inr \<lparr>Filename = ''a.txt'', content = ''hello'', read_error = None\<rparr>)"
      "Awserr ''NoSuchBucket: The specified bucket does not exist''" demo_world
      "\<lparr>Filename = ''a.txt'', content = ''hello'', read_error = None\<rparr>"]
  by (simp add: demo_defs)

section \<open>Properties of the download handler\<close>

text \<open>The handler, by the way the probe ends.\<close>

lemma download_probe_failed:
  "HeadObject w (FormValue rq ''bucket'') (FormValue rq ''file'') = Inl e \<Longrightarrow>
   downloadFileFromBucket w rq =
     print (Error e @ LF)
       (called (HeadObjectCall (FormValue rq ''bucket'') (FormValue rq ''file''))
          (print (''Attempting to download '' @ FormValue rq ''file'' @ '' from bucket: ''
                    @ FormValue rq ''bucket'' @ LF) start))"
  by (cases e) (simp_all add: downloadFileFromBucket_def Let_def)

lemma download_probed:
  assumes "HeadObject w (FormValue rq ''bucket'') (FormValue rq ''file'') = Inr out"
    and "ContentLength out = Some n" and "make_ok w n"
    and "Download w (FormValue rq ''bucket'') (FormValue rq ''file'') (make n) = (buf, sz, err)"
  shows "downloadFileFromBucket w rq =
     (let s5 = downloaded rq n sz err;
          file = FormValue rq ''file''
      in if FormValue rq ''downloadFile'' = ''yes'' then
           (let s6 = s5\<lparr>disk := disk s5 @ [(file, buf, fileMode)]\<rparr>
            in case WriteFile w file buf fileMode of
                 Some e \<Rightarrow>
                   print (''Could not write file to '' @ file @ LF @ ''. Reason: '' @ Error e) s6
               | None \<Rightarrow> print (''Wrote file to '' @ file @ LF) s6)
         else
           print (''Downloaded file.'' @ LF)
             (s5\<lparr>writer :=
                  io_Copy buf
                    (Header_Set ''Content-Type'' (DetectContentType w buf)
                       (Header_Set ''Content-Disposition''
                          (FormatMediaType w ''attachment'' [(''filename'', file)])
                          (writer s5)))\<rparr>))"
  using assms
  by (cases err) (simp_all add: downloadFileFromBucket_def downloaded_def Let_def)

lemma downloaded_simps [simp]:
  "writer (downloaded rq n sz err) = new_writer"
  "disk (downloaded rq n sz err) = []"
  "panicked (downloaded rq n sz err) = False"
  "calls (downloaded rq n sz err) =
     [HeadObjectCall (FormValue rq ''bucket'') (FormValue rq ''file''),
      DownloadCall (FormValue rq ''bucket'') (FormValue rq ''file'') (make n)]"
  by (cases err; simp add: downloaded_def print_def called_def start_def)+

lemma downloaded_stdout:
  "stdout (downloaded rq n sz (Some e)) =
     [''Attempting to download '' @ FormValue rq ''file'' @ '' from bucket: ''
        @ FormValue rq ''bucket'' @ LF,
      ''File size is '' @ FormatInt n @ ''.'' @ LF,
      ''Could not download file. Reason: '' @ Error e @ ''.'' @ LF,
      ''Downloaded file. Size: '' @ FormatInt sz @ LF]"
  by (simp add: downloaded_def print_def called_def start_def)

lemma demo_probe:
  "HeadObject demo_world (FormValue (download_request ''a.txt'' flag) ''bucket'')
     (FormValue (download_request ''a.txt'' flag) ''file'') = Inr \<lparr>ContentLength = Some 5\<rparr>"
  "make_ok demo_world 5"
  "Download demo_world (FormValue (download_request ''a.txt'' flag) ''bucket'')
     (FormValue (download_request ''a.txt'' flag) ''file'') (make 5) = (''hello'', 5, None)"
  by (simp_all add: demo_defs make_ok_def)

text \<open>
  Claim C1, as the code has it. When the probe fails, the handler prints the error and
  returns: \<^verbatim>\<open>HeadObject\<close> is the only call, no file is written, the response writer
  is untouched, and the server answers with an empty 200.
\<close>

theorem download_probe_failure_returns:
  assumes "HeadObject w (FormValue rq ''bucket'') (FormValue rq ''file'') = Inl e"
  shows "calls (downloadFileFromBucket w rq)
           = [HeadObjectCall (FormValue rq ''bucket'') (FormValue rq ''file'')] \<and>
         stdout (downloadFileFromBucket w rq)
           = [''Attempting to download '' @ FormValue rq ''file'' @ '' from bucket: ''
                @ FormValue rq ''bucket'' @ LF,
              Error e @ LF] \<and>
         disk (downloadFileFromBucket w rq) = [] \<and>
         writer (downloadFileFromBucket w rq) = new_writer \<and>
         response_status (downloadFileFromBucket w rq) = Some 200 \<and>
         response_body (downloadFileFromBucket w rq) = []"
proof -
  note run = download_probe_failed [OF assms]
  have untouched: "writer (downloadFileFromBucket w rq) = new_writer"
    by (simp add: run print_def called_def start_def)
  have "calls (downloadFileFromBucket w rq)
          = [HeadObjectCall (FormValue rq ''bucket'') (FormValue rq ''file'')]"
    and "stdout (downloadFileFromBucket w rq)
           = [''Attempting to download '' @ FormValue rq ''file'' @ '' from bucket: ''
                @ FormValue rq ''bucket'' @ LF,
              Error e @ LF]"
    and "disk (downloadFileFromBucket w rq) = []"
    and "panicked (downloadFileFromBucket w rq) = False"
    by (simp_all add: run print_def called_def start_def)
  moreover have "response_status (downloadFileFromBucket w rq) = Some 200"
    using \<open>panicked (downloadFileFromBucket w rq) = False\<close>
    by (simp add: response_status_def untouched WriteHeader_def new_writer_def)
  moreover have "response_body (downloadFileFromBucket w rq) = []"
    by (simp add: response_body_def untouched new_writer_def)
  ultimately show ?thesis
    using untouched by simp
qed

text \<open>A key that the bucket does not hold.\<close>

theorem download_probe_failure_returns_witness:
  "HeadObject demo_world ''b'' ''missing.txt'' = Inl (Awserr ''NotFound: Not Found'') \<and>
   calls (downloadFileFromBucket demo_world (download_request ''missing.txt'' ''no''))
     = [HeadObjectCall ''b'' ''missing.txt''] \<and>
   stdout (downloadFileFromBucket demo_world (download_request ''missing.txt'' ''no''))
     = [''Attempting to download missing.txt from bucket: b'' @ LF,
        ''NotFound: Not Found'' @ LF] \<and>
   response_status (downloadFileFromBucket demo_world (download_request ''missing.txt'' ''no''))
     = Some 200"
  using download_probe_failure_returns [of demo_world "download_request ''missing.txt'' ''no''"
      "Awserr ''NotFound: Not Found''"]
  by (simp add: demo_defs)

text \<open>
  Claim C1 as written says that the handler goes on to the download after a failed
  probe. With the probe failing on the network for an object that a download would
  deliver, the handler makes no \<^verbatim>\<open>Download\<close> call.
\<close>

theorem download_proceeds_counterexample:
  "HeadObject probe_down_world ''b'' ''a.txt'' = Inl (Err ''RequestError: send request failed'') \<and>
   Download probe_down_world ''b'' ''a.txt'' (make 5) = (''hello'', 5, None) \<and>
   calls (downloadFileFromBucket probe_down_world (download_request ''a.txt'' ''no''))
     = [HeadObjectCall ''b'' ''a.txt'']"
  by (simp add: download_probe_failed demo_defs effect_defs)

text \<open>
  Claim C5, for the requests that get past the probe. When the probe reports a size
  that a buffer can be made for and \<open>downloadFile\<close> is \<open>yes\<close>, the handler writes the
  buffer as the download left it to the file named by the key, with mode 0755, and
  leaves the response writer untouched, so the client gets an empty 200 whether the
  write fails or not; a failure of the write is the last line printed.
\<close>

theorem download_to_disk:
  assumes "HeadObject w (FormValue rq ''bucket'') (FormValue rq ''file'') = Inr out"
    and "ContentLength out = Some n" and "make_ok w n"
    and "Download w (FormValue rq ''bucket'') (FormValue rq ''file'') (make n) = (buf, sz, err)"
    and "FormValue rq ''downloadFile'' = ''yes''"
  shows "disk (downloadFileFromBucket w rq) = [(FormValue rq ''file'', buf, fileMode)] \<and>
         fileMode = 493 \<and>
         writer (downloadFileFromBucket w rq) = new_writer \<and>
         response_body (downloadFileFromBucket w rq) = [] \<and>
         response_status (downloadFileFromBucket w rq) = Some 200 \<and>
         (\<forall>e. WriteFile w (FormValue rq ''file'') buf fileMode = Some e \<longrightarrow>
            last (stdout (downloadFileFromBucket w rq))
              = ''Could not write file to '' @ FormValue rq ''file'' @ LF
                  @ ''. Reason: '' @ Error e)"
  using assms(5)
  by (simp add: download_probed [OF assms(1-4)] Let_def print_def response_body_def
        response_status_def WriteHeader_def new_writer_def fileMode_def split: option.splits)

text \<open>The object \<open>a.txt\<close> of bucket \<open>b\<close>, on a disk that takes the file and on one that does not.\<close>

theorem download_to_disk_witness:
  "HeadObject demo_world ''b'' ''a.txt'' = Inr \<lparr>ContentLength = Some 5\<rparr> \<and>
   make_ok demo_world 5 \<and>
   Download demo_world ''b'' ''a.txt'' (make 5) = (''hello'', 5, None) \<and>
   FormValue (download_request ''a.txt'' ''yes'') ''downloadFile'' = ''yes'' \<and>
   disk (downloadFileFromBucket demo_world (download_request ''a.txt'' ''yes''))
     = [(''a.txt'', ''hello'', 493)] \<and>
   response_body (downloadFileFromBucket demo_world (download_request ''a.txt'' ''yes'')) = [] \<and>
   WriteFile read_only_world ''a.txt'' ''hello'' 493
     = Some (Err ''open a.txt: read-only file system'') \<and>
   response_status (downloadFileFromBucket read_only_world (download_request ''a.txt'' ''yes''))
     = Some 200 \<and>
   response_body (downloadFileFromBucket read_only_world (download_request ''a.txt'' ''yes'')) = [] \<and>
   last (stdout (downloadFileFromBucket read_only_world (download_request ''a.txt'' ''yes'')))
     = ''Could not write file to a.txt'' @ LF @ ''. Reason: open a.txt: read-only file system''"
  using
    download_to_disk [of demo_world "download_request ''a.txt'' ''yes''"
      "\<lparr>ContentLength = Some 5\<rparr>" 5 "''hello''" 5 None]
    download_to_disk [of read_only_world "download_request ''a.txt'' ''yes''"
      "\<lparr>ContentLength = Some 5\<rparr>" 5 "''hello''" 5 None]
  by (simp add: demo_defs make_ok_def)

text \<open>
  Claim C5 as written speaks of every request with \<open>downloadFile = yes\<close>. When the probe
  fails, no file is written, though a download would deliver the object.
\<close>

theorem download_to_disk_counterexample:
  "FormValue (download_request ''a.txt'' ''yes'') ''downloadFile'' = ''yes'' \<and>
   Download probe_down_world ''b'' ''a.txt'' (make 5) = (''hello'', 5, None) \<and>
   disk (downloadFileFromBucket probe_down_world (download_request ''a.txt'' ''yes'')) = []"
  by (simp add: download_probe_failed demo_defs effect_defs)

text \<open>
  Claim C6, for the requests that get past the probe. When the probe reports a size
  that a buffer can be made for and \<open>downloadFile\<close> is not \<open>yes\<close>, the response has the
  \<^verbatim>\<open>Content-Disposition\<close> that \<^verbatim>\<open>mime.FormatMediaType\<close> gives for an attachment with
  the key as filename, the \<^verbatim>\<open>Content-Type\<close> that \<^verbatim>\<open>http.DetectContentType\<close> gives
  for the buffer, and the buffer as its body.
\<close>

theorem download_streamed:
  assumes "HeadObject w (FormValue rq ''bucket'') (FormValue rq ''file'') = Inr out"
    and "ContentLength out = Some n" and "make_ok w n"
    and "Download w (FormValue rq ''bucket'') (FormValue rq ''file'') (make n) = (buf, sz, err)"
    and "FormValue rq ''downloadFile'' \<noteq> ''yes''"
  shows "response_header (downloadFileFromBucket w rq) ''Content-Disposition''
           = Some (FormatMediaType w ''attachment'' [(''filename'', FormValue rq ''file'')]) \<and>
         response_header (downloadFileFromBucket w rq) ''Content-Type''
           = Some (DetectContentType w buf) \<and>
         response_body (downloadFileFromBucket w rq) = buf \<and>
         response_status (downloadFileFromBucket w rq) = Some 200 \<and>
         disk (downloadFileFromBucket w rq) = []"
  using assms(5)
  by (simp add: download_probed [OF assms(1-4)] Let_def print_def response_body_def
        response_status_def response_header_def WriteHeader_def Write_def Header_Set_def
        io_Copy_def new_writer_def)

text \<open>The object \<open>a.txt\<close> of bucket \<open>b\<close>, with the field \<open>downloadFile\<close> empty.\<close>

theorem download_streamed_witness:
  "HeadObject demo_world ''b'' ''a.txt'' = Inr \<lparr>ContentLength = Some 5\<rparr> \<and>
   make_ok demo_world 5 \<and>
   Download demo_world ''b'' ''a.txt'' (make 5) = (''hello'', 5, None) \<and>
   FormValue (download_request ''a.txt'' []) ''downloadFile'' \<noteq> ''yes'' \<and>
   response_header (downloadFileFromBucket demo_world (download_request ''a.txt'' []))
     ''Content-Disposition'' = Some ''attachment; filename=a.txt'' \<and>
   response_body (downloadFileFromBucket demo_world (download_request ''a.txt'' [])) = ''hello''"
  using download_streamed [OF demo_probe(1) _ demo_probe(2,3), of "[]"]
  by (simp add: demo_defs make_ok_def)

text \<open>
  Claim C6 as written speaks of every request with \<open>downloadFile\<close> other than \<open>yes\<close>.
  When the probe fails, the response has no \<^verbatim>\<open>Content-Disposition\<close> and no body,
  though a download would deliver the object.
\<close>

theorem download_streamed_counterexample:
  "FormValue (download_request ''a.txt'' ''no'') ''downloadFile'' \<noteq> ''yes'' \<and>
   Download probe_down_world ''b'' ''a.txt'' (make 5) = (''hello'', 5, None) \<and>
   response_header (downloadFileFromBucket probe_down_world (download_request ''a.txt'' ''no''))
     ''Content-Disposition'' = None \<and>
   response_body (downloadFileFromBucket probe_down_world (download_request ''a.txt'' ''no'')) = []"
  by (simp add: download_probe_failed demo_defs effect_defs)

text \<open>
  Claim C10. When the probe reports a size that a buffer can be made for and the
  download then fails, the handler prints the error and goes on: the status is 200, the
  buffer as the failed download left it is written to disk (\<open>downloadFile = yes\<close>) or
  sent as the body, and the response is the one the handler gives when the download
  succeeds with the same buffer.
\<close>

theorem download_error_not_reported:
  assumes "HeadObject w (FormValue rq ''bucket'') (FormValue rq ''file'') = Inr out"
    and "ContentLength out = Some n" and "make_ok w n"
    and "Download w (FormValue rq ''bucket'') (FormValue rq ''file'') (make n) = (buf, sz, Some e)"
  shows "(''Could not download file. Reason: '' @ Error e @ ''.'' @ LF)
           \<in> set (stdout (downloadFileFromBucket w rq)) \<and>
         response_status (downloadFileFromBucket w rq) = Some 200 \<and>
         (if FormValue rq ''downloadFile'' = ''yes''
          then disk (downloadFileFromBucket w rq) = [(FormValue rq ''file'', buf, fileMode)] \<and>
               response_body (downloadFileFromBucket w rq) = []
          else disk (downloadFileFromBucket w rq) = [] \<and>
               response_body (downloadFileFromBucket w rq) = buf) \<and>
         writer (downloadFileFromBucket w rq)
           = writer (downloadFileFromBucket (w\<lparr>Download := \<lambda>bucket key b. (buf, sz, None)\<rparr>) rq)"
proof -
  let ?w' = "w\<lparr>Download := \<lambda>bucket key b. (buf, sz, None)\<rparr>"
  have ok: "make_ok ?w' n"
    using assms(3) by (simp add: make_ok_def)
  have run': "downloadFileFromBucket ?w' rq = 
     (let s5 = downloaded rq n sz None;
          file = FormValue rq ''file''
      in if FormValue rq ''downloadFile'' = ''yes'' then
           (let s6 = s5\<lparr>disk := disk s5 @ [(file, buf, fileMode)]\<rparr>
            in case WriteFile w file buf fileMode of
                 Some e \<Rightarrow>
                   print (''Could not write file to '' @ file @ LF @ ''. Reason: '' @ Error e) s6
               | None \<Rightarrow> print (''Wrote file to '' @ file @ LF) s6)
         else
           print (''Downloaded file.'' @ LF)
             (s5\<lparr>writer :=
                  io_Copy buf
                    (Header_Set ''Content-Type'' (DetectContentType w buf)
                       (Header_Set ''Content-Disposition''
                          (FormatMediaType w ''attachment'' [(''filename'', file)])
                          (writer s5)))\<rparr>))"
    using download_probed [of ?w' rq out n buf sz None] assms(1,2) ok by (simp add: Let_def)
  show ?thesis
    by (simp add: download_probed [OF assms] run' Let_def print_def response_body_def
        response_status_def WriteHeader_def Write_def Header_Set_def io_Copy_def
        new_writer_def downloaded_stdout split: option.splits)
qed

text \<open>A download that fails on the network and leaves the five zero bytes of the buffer.\<close>

theorem download_error_not_reported_witness:
  "HeadObject download_down_world ''b'' ''a.txt'' = Inr \<lparr>ContentLength = Some 5\<rparr> \<and>
   make_ok download_down_world 5 \<and>
   Download download_down_world ''b'' ''a.txt'' (make 5)
     = (make 5, 0, Some (Err ''RequestError: send request failed'')) \<and>
   response_status (downloadFileFromBucket download_down_world (download_request ''a.txt'' ''no''))
     = Some 200 \<and>
   response_body (downloadFileFromBucket download_down_world (download_request ''a.txt'' ''no''))
     = make 5 \<and>
   disk (downloadFileFromBucket download_down_world (download_request ''a.txt'' ''yes''))
     = [(''a.txt'', make 5, 493)]"
  using
    download_error_not_reported [of download_down_world "download_request ''a.txt'' ''no''"
      "\<lparr>ContentLength = Some 5\<rparr>" 5 "make 5" 0 "Err ''RequestError: send request failed''"]
    download_error_not_reported [of download_down_world "download_request ''a.txt'' ''yes''"
      "\<lparr>ContentLength = Some 5\<rparr>" 5 "make 5" 0 "Err ''RequestError: send request failed''"]
  by (simp add: demo_defs make_ok_def fileMode_def)

end
